theory Spec2Isabelle
  imports Complex_Main "HOL-Library.Sublist"
begin

section \<open>Python numbers\<close>

text \<open>
  The prices and totals of the store are Python floats (IEEE binary64). A finite float is
  modelled by the rational number it denotes, so \<open>Fin 0\<close> stands for \<open>0.0\<close>, for
  \<open>-0.0\<close> and for the integer \<open>0\<close> that \<open>sum\<close> returns on an empty sequence: Python's
  \<open>==\<close> identifies the three, and no operation used by the handlers (there is no division
  and no formatting) tells them apart. The two infinities and NaN are values of their own.
\<close>

datatype pyfloat = Fin rat | PInf | NInf | NaN

fun bitlen :: "nat \<Rightarrow> nat" where
  "bitlen n = (if n = 0 then 0 else Suc (bitlen (n div 2)))"

declare bitlen.simps [simp del]

definition pow2 :: "int \<Rightarrow> rat" where
  "pow2 e = (if 0 \<le> e then 2 ^ nat e else 1 / 2 ^ nat (- e))"

text \<open>\<open>ilog2 x\<close> is the exponent \<open>e\<close> with \<open>2^e \<le> x < 2^(e+1)\<close>, for a positive \<open>x\<close>.\<close>

definition ilog2 :: "rat \<Rightarrow> int" where
  "ilog2 x = (if 1 \<le> x then int (bitlen (nat \<lfloor>x\<rfloor>)) - 1
              else - int (bitlen (nat (\<lceil>1 / x\<rceil> - 1))))"

definition round_half_even :: "rat \<Rightarrow> int" where
  "round_half_even x =
     (let f = \<lfloor>x\<rfloor>; d = x - of_int f in
      if d < 1 / 2 then f
      else if 1 / 2 < d then f + 1
      else if even f then f else f + 1)"

text \<open>
  \<open>fl x\<close> is the binary64 nearest to the real number \<open>x\<close>, ties to the even mantissa:
  53 bits of mantissa, the smallest exponent \<open>-1022\<close> (below it the spacing stays
  \<open>2^-1074\<close>), and an infinity once the rounded magnitude reaches \<open>2^1024\<close>.
\<close>

definition fl :: "rat \<Rightarrow> pyfloat" where
  "fl x =
     (if x = 0 then Fin 0
      else
        let e = max (ilog2 \<bar>x\<bar>) (- 1022);
            u = pow2 (e - 52);
            y = of_int (round_half_even (x / u)) * u
        in if \<bar>y\<bar> < pow2 1024 then Fin y else if 0 < x then PInf else NInf)"

text \<open>\<open>a * b\<close> and \<open>a + b\<close> on floats: the exact result, rounded once.\<close>

fun fmul :: "pyfloat \<Rightarrow> pyfloat \<Rightarrow> pyfloat" where
  "fmul (Fin a) (Fin b) = fl (a * b)"
| "fmul (Fin a) PInf = (if a = 0 then NaN else if 0 < a then PInf else NInf)"
| "fmul (Fin a) NInf = (if a = 0 then NaN else if 0 < a then NInf else PInf)"
| "fmul PInf (Fin b) = (if b = 0 then NaN else if 0 < b then PInf else NInf)"
| "fmul NInf (Fin b) = (if b = 0 then NaN else if 0 < b then NInf else PInf)"
| "fmul PInf PInf = PInf"
| "fmul PInf NInf = NInf"
| "fmul NInf PInf = NInf"
| "fmul NInf NInf = PInf"
| "fmul NaN _ = NaN"
| "fmul _ NaN = NaN"

fun fadd :: "pyfloat \<Rightarrow> pyfloat \<Rightarrow> pyfloat" where
  "fadd (Fin a) (Fin b) = fl (a + b)"
| "fadd (Fin a) PInf = PInf"
| "fadd (Fin a) NInf = NInf"
| "fadd PInf (Fin b) = PInf"
| "fadd NInf (Fin b) = NInf"
| "fadd PInf PInf = PInf"
| "fadd NInf NInf = NInf"
| "fadd PInf NInf = NaN"
| "fadd NInf PInf = NaN"
| "fadd NaN _ = NaN"
| "fadd _ NaN = NaN"

datatype exn =
    HTTPException nat detail
  | OverflowError
  | AttributeError
  | InvalidId
  | StorageError
and detail =
    Text string
  | Str exn

text \<open>
  \<open>HTTPException status_code detail\<close> is FastAPI's exception; \<open>Str e\<close> is the detail
  \<open>str(e)\<close> of a handler that wraps the exception \<open>e\<close>. \<open>StorageError\<close> is any exception
  raised by the storage backend, \<open>InvalidId\<close> the one of \<open>bson\<close> on a malformed identifier.

  An \<open>int\<close> operand of a float multiplication is converted first; the conversion rounds
  to the nearest float and raises \<open>OverflowError\<close> when there is none.
\<close>

definition float_of_int :: "int \<Rightarrow> exn + pyfloat" where
  "float_of_int n = (case fl (of_int n) of Fin x \<Rightarrow> Inr (Fin x) | _ \<Rightarrow> Inl OverflowError)"

definition fmul_int :: "pyfloat \<Rightarrow> int \<Rightarrow> exn + pyfloat" where
  "fmul_int p q = (case float_of_int q of Inl e \<Rightarrow> Inl e | Inr f \<Rightarrow> Inr (fmul p f))"

text \<open>
  \<open>round(x, 2)\<close>: the exact value of \<open>x\<close> rounded to two decimals, ties to the even
  digit, then the float nearest to that decimal. Infinities and NaN round to themselves.
\<close>

fun py_round2 :: "pyfloat \<Rightarrow> pyfloat" where
  "py_round2 (Fin x) = fl (of_int (round_half_even (x * 100)) / 100)"
| "py_round2 PInf = PInf"
| "py_round2 NInf = NInf"
| "py_round2 NaN = NaN"

text \<open>
  \<open>sum(xs)\<close> starts from the integer \<open>0\<close> and adds from left to right (the accumulation
  of CPython up to 3.11; later versions carry a compensation term, which is zero whenever
  every addition is exact). No result below depends on the order of the additions.
\<close>

definition py_sum :: "pyfloat list \<Rightarrow> pyfloat" where
  "py_sum xs = foldl fadd (Fin 0) xs"

section \<open>Data model (schemas.py)\<close>

type_synonym oid = nat
type_synonym datetime = int

record Customer =
  name :: string
  email :: string
  phone :: "string option"
  address_line1 :: string
  address_line2 :: "string option"
  city :: string
  state :: string
  postal_code :: string
  country :: string

record CartItem =
  product_id :: string
  title :: string
  price :: pyfloat
  quantity :: int
  image :: "string option"

record Cart =
  session_id :: string
  items :: "CartItem list"
  subtotal :: pyfloat
  updated_at :: "datetime option"

record OrderItem =
  product_id :: string
  title :: string
  price :: pyfloat
  quantity :: int
  image :: "string option"

record Order =
  session_id :: string
  customer :: Customer
  items :: "OrderItem list"
  subtotal :: pyfloat
  tax :: pyfloat
  total :: pyfloat
  status :: string
  placed_at :: "datetime option"

record CheckoutPayload =
  session_id :: string
  customer :: Customer

record Product =
  title :: string
  description :: "string option"
  price :: pyfloat
  compare_at_price :: "pyfloat option"
  category_slug :: string
  brand :: "string option"
  sku :: "string option"
  images :: "string list"
  rating :: pyfloat
  stock :: int
  attributes :: "(string \<times> string) list"

section \<open>The document store\<close>

text \<open>
  A collection is the sequence of its documents in storage order. A document is the pair
  of its \<open>_id\<close> and its other fields: a cart document holds the dump of a \<open>Cart\<close>, an
  order document the dump of an \<open>Order\<close>, a product document the fields of a \<open>Product\<close>.
  A filter is a predicate on documents.
\<close>

type_synonym 'a collection = "(oid \<times> 'a) list"

record store =
  db_product :: "Product collection"
  db_cart :: "Cart collection"
  db_order :: "Order collection"
  next_oid :: oid

text \<open>\<open>db[c].find_one(filter)\<close>: the first document that matches, or \<open>None\<close>.\<close>

definition find_one :: "(oid \<times> 'a \<Rightarrow> bool) \<Rightarrow> 'a collection \<Rightarrow> (oid \<times> 'a) option" where
  "find_one flt coll = List.find flt coll"

text \<open>\<open>db[c].update_one({"_id": i}, {"$set": data})\<close>: the first document under \<open>i\<close> gets the
  fields of \<open>data\<close>.\<close>

fun update_one :: "oid \<Rightarrow> 'a \<Rightarrow> 'a collection \<Rightarrow> 'a collection" where
  "update_one i data [] = []"
| "update_one i data (d # ds) =
     (if fst d = i then (i, data) # ds else d # update_one i data ds)"

text \<open>\<open>db[c].delete_one(filter)\<close>: the first document that matches is removed.\<close>

fun delete_one :: "(oid \<times> 'a \<Rightarrow> bool) \<Rightarrow> 'a collection \<Rightarrow> 'a collection" where
  "delete_one flt [] = []"
| "delete_one flt (d # ds) = (if flt d then ds else d # delete_one flt ds)"

text \<open>
  Modelled from the spec: \<open>create_document\<close> and \<open>get_documents\<close> of the repository's
  \<open>database\<close> module, which is not among the sources. The spec gives them as
  \<open>insert(collection, document) \<rightarrow> id\<close>, the document added to the collection under a new
  identifier, which is returned, and \<open>findMany(collection, filter) \<rightarrow> sequence\<close>, the
  documents that match, in storage order.
\<close>

definition get_documents :: "(oid \<times> 'a \<Rightarrow> bool) \<Rightarrow> 'a collection \<Rightarrow> 'a collection" where
  "get_documents flt coll = filter flt coll"

definition create_document_cart :: "store \<Rightarrow> Cart \<Rightarrow> oid \<times> store" where
  "create_document_cart db data =
     (next_oid db, db\<lparr>db_cart := db_cart db @ [(next_oid db, data)], next_oid := Suc (next_oid db)\<rparr>)"

definition create_document_order :: "store \<Rightarrow> Order \<Rightarrow> oid \<times> store" where
  "create_document_order db data =
     (next_oid db, db\<lparr>db_order := db_order db @ [(next_oid db, data)], next_oid := Suc (next_oid db)\<rparr>)"

section \<open>Cart endpoints (main.py)\<close>

record CartWritten =
  status :: string
  subtotal :: pyfloat

text \<open>The generator \<open>item.price * item.quantity for item in cart.items\<close>, consumed in order;
  the first product that raises ends it.\<close>

fun line_totals :: "CartItem list \<Rightarrow> exn + pyfloat list" where
  "line_totals [] = Inr []"
| "line_totals (item # rest) =
     (case fmul_int (CartItem.price item) (CartItem.quantity item) of
        Inl e \<Rightarrow> Inl e
      | Inr v \<Rightarrow> (case line_totals rest of Inl e \<Rightarrow> Inl e | Inr vs \<Rightarrow> Inr (v # vs)))"

definition create_or_update_cart :: "datetime \<Rightarrow> store \<Rightarrow> Cart \<Rightarrow> (exn + CartWritten) \<times> store" where
  "create_or_update_cart now db cart =
     (case line_totals (Cart.items cart) of
        Inl e \<Rightarrow> (Inl (HTTPException 500 (Str e)), db)
      | Inr vs \<Rightarrow>
          let subtotal = py_sum vs;
              data = cart\<lparr>Cart.subtotal := py_round2 subtotal, Cart.updated_at := Some now\<rparr>
          in (case find_one (\<lambda>d. Cart.session_id (snd d) = Cart.session_id cart) (db_cart db) of
                Some existing \<Rightarrow>
                  (Inr \<lparr>CartWritten.status = ''ok'', subtotal = Cart.subtotal data\<rparr>,
                   db\<lparr>db_cart := update_one (fst existing) data (db_cart db)\<rparr>)
              | None \<Rightarrow>
                  (Inr \<lparr>CartWritten.status = ''ok'', subtotal = Cart.subtotal data\<rparr>,
                   snd (create_document_cart db data))))"

text \<open>\<open>get_cart\<close> returns the stored document, or a dictionary of three keys.\<close>

datatype cart_view =
    StoredCart oid Cart
  | EmptyCart string "CartItem list" pyfloat

definition get_cart :: "store \<Rightarrow> string \<Rightarrow> exn + cart_view" where
  "get_cart db sid =
     (case find_one (\<lambda>d. Cart.session_id (snd d) = sid) (db_cart db) of
        None \<Rightarrow> Inr (EmptyCart sid [] (Fin 0))
      | Some cart \<Rightarrow> Inr (StoredCart (fst cart) (snd cart)))"

section \<open>Checkout (main.py)\<close>

record CheckoutDone =
  status :: string
  order_id :: oid
  total :: pyfloat

text \<open>
  The three storage calls of \<open>checkout\<close>, in program order. The argument \<open>raises\<close> of the
  model says which of them raise; a call that raises has written nothing.
\<close>

datatype storage_call = Find_one | Create_document | Delete_one

definition order_item :: "CartItem \<Rightarrow> OrderItem" where
  "order_item i =
     \<lparr>OrderItem.product_id = CartItem.product_id i,
      title = CartItem.title i,
      price = CartItem.price i,
      quantity = CartItem.quantity i,
      image = CartItem.image i\<rparr>"

definition checkout ::
  "(storage_call \<Rightarrow> bool) \<Rightarrow> datetime \<Rightarrow> store \<Rightarrow> CheckoutPayload \<Rightarrow> (exn + CheckoutDone) \<times> store" where
  "checkout raises now db payload =
     (if raises Find_one then (Inl (HTTPException 500 (Str StorageError)), db)
      else
        case find_one (\<lambda>d. Cart.session_id (snd d) = CheckoutPayload.session_id payload) (db_cart db) of
          None \<Rightarrow> (Inl (HTTPException 400 (Text ''Cart is empty'')), db)
        | Some cart \<Rightarrow>
            if Cart.items (snd cart) = [] then (Inl (HTTPException 400 (Text ''Cart is empty'')), db)
            else
              let items = map order_item (Cart.items (snd cart));
                  subtotal = Cart.subtotal (snd cart);
                  tax = py_round2 (fmul subtotal (fl (8 / 100)));
                  total = py_round2 (fadd subtotal tax);
                  order =
                    \<lparr>Order.session_id = CheckoutPayload.session_id payload,
                     customer = CheckoutPayload.customer payload,
                     items = items,
                     subtotal = subtotal,
                     tax = tax,
                     total = total,
                     status = ''processing'',
                     placed_at = Some now\<rparr>
              in if raises Create_document then (Inl (HTTPException 500 (Str StorageError)), db)
                 else
                   let created = create_document_order db order in
                   if raises Delete_one
                   then (Inl (HTTPException 500 (Str StorageError)), snd created)
                   else
                     (Inr \<lparr>CheckoutDone.status = ''ok'', order_id = fst created, total = total\<rparr>,
                      (snd created)
                        \<lparr>db_cart :=
                           delete_one (\<lambda>d. Cart.session_id (snd d) = CheckoutPayload.session_id payload)
                             (db_cart (snd created))\<rparr>))"

section \<open>Catalog endpoints (main.py)\<close>

text \<open>
  Text is modelled as a list of 8-bit characters and \<open>str.lower\<close> by its action on ASCII,
  where it maps \<open>A\<close> to \<open>Z\<close> onto \<open>a\<close> to \<open>z\<close> and leaves every other character.
\<close>

definition lower_char :: "char \<Rightarrow> char" where
  "lower_char c =
     (if (65::nat) \<le> of_char c \<and> of_char c \<le> (90::nat) then char_of (of_char c + (32::nat)) else c)"

definition lower :: "string \<Rightarrow> string" where
  "lower s = map lower_char s"

text \<open>\<open>sub in s\<close> on strings: \<open>sub\<close> occurs in \<open>s\<close> as a block of consecutive characters.\<close>

fun str_contains :: "string \<Rightarrow> string \<Rightarrow> bool" where
  "str_contains [] sub = (sub = [])"
| "str_contains (c # cs) sub = (prefix sub (c # cs) \<or> str_contains cs sub)"

text \<open>The truth value of an optional string argument: \<open>None\<close> and the empty string are
  false.\<close>

definition truthy :: "string option \<Rightarrow> bool" where
  "truthy a = (case a of None \<Rightarrow> False | Some v \<Rightarrow> v \<noteq> [])"

text \<open>
  The condition of the search comprehension for one product. The title is a string by
  the schema. \<open>p.get("description", "")\<close> is the stored value when the key is there, and a
  description may be \<open>None\<close> (the schema's default), on which \<open>.lower()\<close> raises
  \<open>AttributeError\<close>; the right operand of \<open>or\<close> is evaluated only when the left is false.
\<close>

definition search_match :: "string \<Rightarrow> Product \<Rightarrow> exn + bool" where
  "search_match q_lower p =
     (if str_contains (lower (Product.title p)) q_lower then Inr True
      else case Product.description p of
             None \<Rightarrow> Inl AttributeError
           | Some d \<Rightarrow> Inr (str_contains (lower d) q_lower))"

fun search_filter :: "string \<Rightarrow> Product collection \<Rightarrow> exn + Product collection" where
  "search_filter q_lower [] = Inr []"
| "search_filter q_lower (p # ps) =
     (case search_match q_lower (snd p) of
        Inl e \<Rightarrow> Inl e
      | Inr b \<Rightarrow>
          (case search_filter q_lower ps of
             Inl e \<Rightarrow> Inl e
           | Inr found \<Rightarrow> Inr (if b then p # found else found)))"

text \<open>The last loop of \<open>list_products\<close> turns each \<open>_id\<close> into its string; the model keeps the
  identifier as it is.\<close>

definition list_products :: "store \<Rightarrow> string option \<Rightarrow> string option \<Rightarrow> exn + Product collection" where
  "list_products db category q =
     (let filter_q = (\<lambda>d. if truthy category then Some (Product.category_slug (snd d)) = category else True);
          products = get_documents filter_q (db_product db)
      in case q of
           None \<Rightarrow> Inr products
         | Some v \<Rightarrow>
             if truthy q
             then (case search_filter (lower v) products of
                     Inl e \<Rightarrow> Inl (HTTPException 500 (Str e))
                   | Inr found \<Rightarrow> Inr found)
             else Inr products)"

text \<open>
  \<open>get_product\<close> takes the constructor \<open>ObjectId\<close> of \<open>bson\<close> as an argument: it gives the
  identifier a well-formed string denotes, and \<open>None\<close> where \<open>bson\<close> raises \<open>InvalidId\<close>.
  The handler has one \<open>except Exception\<close> clause and no clause that lets an
  \<open>HTTPException\<close> through, so the 404 raised inside the \<open>try\<close> is caught by it as well.
\<close>

definition get_product :: "(string \<Rightarrow> oid option) \<Rightarrow> store \<Rightarrow> string \<Rightarrow> exn + oid \<times> Product" where
  "get_product ObjectId db pid =
     (case ObjectId pid of
        None \<Rightarrow> Inl (HTTPException 500 (Str InvalidId))
      | Some i \<Rightarrow>
          (case find_one (\<lambda>d. fst d = i) (db_product db) of
             None \<Rightarrow> Inl (HTTPException 500 (Str (HTTPException 404 (Text ''Product not found''))))
           | Some doc \<Rightarrow> Inr doc))"

section \<open>Status classes of an error response\<close>

definition client_error :: "exn \<Rightarrow> bool" where
  "client_error e = (case e of HTTPException code _ \<Rightarrow> 400 \<le> code \<and> code < 500 | _ \<Rightarrow> False)"

definition server_fault :: "exn \<Rightarrow> bool" where
  "server_fault e = (case e of HTTPException code _ \<Rightarrow> 500 \<le> code \<and> code < 600 | _ \<Rightarrow> False)"

text \<open>The store in which nothing has been written yet, and the handlers with a backend that
  never raises.\<close>

definition empty_store :: store where
  "empty_store = \<lparr>db_product = [], db_cart = [], db_order = [], next_oid = 0\<rparr>"

definition no_fault :: "storage_call \<Rightarrow> bool" where
  "no_fault c = False"

section \<open>The words of the catalog's specification\<close>





section \<open>Example data\<close>

text \<open>The identifiers \<open>bson\<close> accepts as strings are those of 24 hexadecimal digits.\<close>

definition hex_digit :: "char \<Rightarrow> nat option" where
  "hex_digit c =
     (let n = (of_char c :: nat) in
      if 48 \<le> n \<and> n \<le> 57 then Some (n - 48)
      else if 97 \<le> n \<and> n \<le> 102 then Some (n - 87)
      else if 65 \<le> n \<and> n \<le> 70 then Some (n - 55)
      else None)"

fun hex_value :: "nat \<Rightarrow> string \<Rightarrow> nat option" where
  "hex_value acc [] = Some acc"
| "hex_value acc (c # cs) =
     (case hex_digit c of None \<Rightarrow> None | Some d \<Rightarrow> hex_value (16 * acc + d) cs)"

definition ObjectId_hex :: "string \<Rightarrow> oid option" where
  "ObjectId_hex s = (if length s = 24 then hex_value 0 s else None)"

text \<open>The three sample products of \<open>seed\<close>, and a store that holds them.\<close>

definition headphones :: Product where
  "headphones =
     \<lparr>Product.title = ''Wireless Headphones'',
      description = Some ''Noise-cancelling over-ear headphones'',
      price = fl (12999 / 100),
      compare_at_price = Some (fl (17999 / 100)),
      category_slug = ''electronics'',
      brand = Some ''SoundMax'',
      sku = Some ''HD-1001'',
      images = [''https://images.unsplash.com/photo-1512314889357-e157c22f938d''],
      rating = fl (46 / 10),
      stock = 25,
      attributes = [(''color'', ''black'')]\<rparr>"

definition cookware :: Product where
  "cookware =
     \<lparr>Product.title = ''Stainless Cookware Set'',
      description = Some ''10-piece pots and pans set'',
      price = fl 89,
      compare_at_price = None,
      category_slug = ''home-kitchen'',
      brand = Some ''ChefPro'',
      sku = Some ''CK-2002'',
      images = [''https://images.unsplash.com/photo-1514517220039-39c7b53c0b18''],
      rating = fl (44 / 10),
      stock = 40,
      attributes = [(''pieces'', ''10'')]\<rparr>"

definition serum :: Product where
  "serum =
     \<lparr>Product.title = ''Organic Face Serum'',
      description = Some ''Vitamin C brightening serum'',
      price = fl (245 / 10),
      compare_at_price = None,
      category_slug = ''beauty'',
      brand = Some ''GlowLab'',
      sku = Some ''GL-3003'',
      images = [''https://images.unsplash.com/photo-1611930022073-b7a4ba5fcccd''],
      rating = fl (47 / 10),
      stock = 60,
      attributes = [(''size'', ''30ml'')]\<rparr>"

definition catalog_store :: store where
  "catalog_store =
     \<lparr>db_product = [(4, headphones), (5, cookware), (6, serum)],
      db_cart = [], db_order = [], next_oid = 7\<rparr>"

section \<open>The words of the cart's and the checkout's specification\<close>

text \<open>The order that \<open>checkout\<close> builds from a stored cart, and the store once that order
  has been inserted.\<close>

definition order_of :: "datetime \<Rightarrow> CheckoutPayload \<Rightarrow> Cart \<Rightarrow> Order" where
  "order_of now payload cart =
     \<lparr>Order.session_id = CheckoutPayload.session_id payload,
      customer = CheckoutPayload.customer payload,
      items = map order_item (Cart.items cart),
      subtotal = Cart.subtotal cart,
      tax = py_round2 (fmul (Cart.subtotal cart) (fl (8 / 100))),
      total = py_round2 (fadd (Cart.subtotal cart) (py_round2 (fmul (Cart.subtotal cart) (fl (8 / 100))))),
      status = ''processing'',
      placed_at = Some now\<rparr>"

definition with_order :: "store \<Rightarrow> Order \<Rightarrow> store" where
  "with_order db order =
     db\<lparr>db_order := db_order db @ [(next_oid db, order)], next_oid := Suc (next_oid db)\<rparr>"

definition storage_failure :: exn where
  "storage_failure = HTTPException 500 (Str StorageError)"

text \<open>An order item is a copy of a cart item when the five fields agree.\<close>

definition copy_of :: "OrderItem \<Rightarrow> CartItem \<Rightarrow> bool" where
  "copy_of oi ci =
     (OrderItem.product_id oi = CartItem.product_id ci
      \<and> OrderItem.title oi = CartItem.title ci
      \<and> OrderItem.price oi = CartItem.price ci
      \<and> OrderItem.quantity oi = CartItem.quantity ci
      \<and> OrderItem.image oi = CartItem.image ci)"

text \<open>
  What the storage backend and the data model promise of a store: a session has at most
  one cart document, the identifiers of a collection are distinct, and the identifiers
  in use are below the next one to be given out.
\<close>

definition one_cart_per_session :: "store \<Rightarrow> bool" where
  "one_cart_per_session db = distinct (map (\<lambda>d. Cart.session_id (snd d)) (db_cart db))"

definition distinct_ids :: "store \<Rightarrow> bool" where
  "distinct_ids db = (distinct (map fst (db_cart db)) \<and> distinct (map fst (db_order db)))"

definition ids_below_next :: "store \<Rightarrow> bool" where
  "ids_below_next db =
     (list_all (\<lambda>d. fst d < next_oid db) (db_cart db)
      \<and> list_all (\<lambda>d. fst d < next_oid db) (db_order db))"

definition wf_store :: "store \<Rightarrow> bool" where
  "wf_store db = (one_cart_per_session db \<and> distinct_ids db \<and> ids_below_next db)"

text \<open>The product \<open>item.price * item.quantity\<close> when the quantity has a float, and
  \<open>round(sum of the products, 2)\<close>.\<close>

definition fits_float :: "int \<Rightarrow> bool" where
  "fits_float q = (case float_of_int q of Inr _ \<Rightarrow> True | Inl _ \<Rightarrow> False)"

definition line_total :: "CartItem \<Rightarrow> pyfloat" where
  "line_total item = fmul (CartItem.price item) (fl (of_int (CartItem.quantity item)))"

definition expected_subtotal :: "CartItem list \<Rightarrow> pyfloat" where
  "expected_subtotal its = py_round2 (py_sum (map line_total its))"

text \<open>The cart document that a write leaves for a payload, and a cart collection with the
  time of the last write left out.\<close>

definition stored_cart :: "datetime \<Rightarrow> Cart \<Rightarrow> Cart" where
  "stored_cart now cart =
     cart\<lparr>Cart.subtotal := expected_subtotal (Cart.items cart), Cart.updated_at := Some now\<rparr>"

definition forget_updated_at :: "Cart collection \<Rightarrow> Cart collection" where
  "forget_updated_at coll = map (\<lambda>d. (fst d, (snd d)\<lparr>Cart.updated_at := None\<rparr>)) coll"

section \<open>Example carts\<close>

definition example_items :: "CartItem list" where
  "example_items =
     [\<lparr>CartItem.product_id = ''p-mug'', title = ''Mug'', price = Fin 10, quantity = 2, image = None\<rparr>,
      \<lparr>CartItem.product_id = ''p-spoon'', title = ''Spoon'', price = Fin 5, quantity = 1,
        image = Some ''spoon.png''\<rparr>]"

definition example_cart :: Cart where
  "example_cart =
     \<lparr>Cart.session_id = ''s1'', items = example_items, subtotal = Fin 0, updated_at = None\<rparr>"

definition stored_example_cart :: Cart where
  "stored_example_cart =
     \<lparr>Cart.session_id = ''s1'', items = example_items, subtotal = Fin 25, updated_at = Some 1\<rparr>"

definition cart_store :: store where
  "cart_store = \<lparr>db_product = [], db_cart = [(0, stored_example_cart)], db_order = [], next_oid = 1\<rparr>"

definition example_customer :: Customer where
  "example_customer =
     \<lparr>name = ''Ann'', email = ''ann@example.org'', phone = None,
      address_line1 = ''1 Main St'', address_line2 = None, city = ''Springfield'',
      state = ''IL'', postal_code = ''62701'', country = ''US''\<rparr>"

definition example_payload :: CheckoutPayload where
  "example_payload = \<lparr>CheckoutPayload.session_id = ''s1'', customer = example_customer\<rparr>"

definition example_order :: Order where
  "example_order =
     \<lparr>Order.session_id = ''s1'',
      customer = example_customer,
      items =
        [\<lparr>OrderItem.product_id = ''p-mug'', title = ''Mug'', price = Fin 10, quantity = 2, image = None\<rparr>,
         \<lparr>OrderItem.product_id = ''p-spoon'', title = ''Spoon'', price = Fin 5, quantity = 1,
           image = Some ''spoon.png''\<rparr>],
      subtotal = Fin 25,
      tax = Fin 2,
      total = Fin 27,
      status = ''processing'',
      placed_at = Some 2\<rparr>"

definition checked_out_store :: store where
  "checked_out_store = \<lparr>db_product = [], db_cart = [], db_order = [(1, example_order)], next_oid = 2\<rparr>"

text \<open>A payload with the spoon alone, and one whose quantity is \<open>2^1024\<close>.\<close>

definition smaller_cart :: Cart where
  "smaller_cart =
     \<lparr>Cart.session_id = ''s1'',
      items = [\<lparr>CartItem.product_id = ''p-spoon'', title = ''Spoon'', price = Fin 5, quantity = 1,
                 image = Some ''spoon.png''\<rparr>],
      subtotal = Fin 0, updated_at = None\<rparr>"

definition overflow_cart :: Cart where
  "overflow_cart =
     \<lparr>Cart.session_id = ''s1'',
      items = [\<lparr>CartItem.product_id = ''p-mug'', title = ''Mug'', price = Fin 10, quantity = 2 ^ 1024,
                 image = None\<rparr>],
      subtotal = Fin 0, updated_at = None\<rparr>"

section \<open>Facts about the storage operations\<close>

lemma find_one_None_iff:
  "find_one flt coll = None \<longleftrightarrow> (\<forall>d \<in> set coll. \<not> flt d)"
  by (auto simp: find_one_def find_None_iff)

lemma find_one_Some_set:
  "find_one flt coll = Some d \<Longrightarrow> d \<in> set coll \<and> flt d"
  by (auto simp: find_one_def find_Some_iff)

lemma find_one_append:
  "find_one flt (xs @ ys) = (case find_one flt xs of None \<Rightarrow> find_one flt ys | Some d \<Rightarrow> Some d)"
  by (induction xs) (simp_all add: find_one_def)

lemma find_one_delete_one_None:
  assumes "distinct (map key coll)"
  shows "find_one (\<lambda>d. key d = k) (delete_one (\<lambda>d. key d = k) coll) = None"
  using assms
proof (induction coll)
  case Nil
  then show ?case by (simp add: find_one_def)
next
  case (Cons e es)
  show ?case
  proof (cases "key e = k")
    case True
    with Cons.prems have "\<forall>d \<in> set es. key d \<noteq> k" by (fastforce simp: image_iff)
    with True show ?thesis by (simp add: find_one_None_iff)
  next
    case False
    with Cons show ?thesis by (simp add: find_one_def)
  qed
qed

section \<open>Facts about the arithmetic\<close>

lemma bitlen_0: "bitlen 0 = 0"
  by (simp add: bitlen.simps)

lemma bitlen_pos: "0 < n \<Longrightarrow> bitlen n = Suc (bitlen (n div 2))"
  by (subst bitlen.simps) simp

lemma floor_numeral_quot: "\<lfloor>(numeral a :: rat) / numeral b\<rfloor> = numeral a div numeral b"
  by (metis floor_divide_of_int_eq of_int_numeral)

lemma floor_neg_numeral_quot: "\<lfloor>- ((numeral a :: rat) / numeral b)\<rfloor> = - numeral a div numeral b"
  by (metis floor_divide_of_int_eq of_int_numeral of_int_minus minus_divide_left)

lemma ceiling_numeral_quot: "\<lceil>(numeral a :: rat) / numeral b\<rceil> = - (- numeral a div numeral b)"
  by (simp add: ceiling_def floor_neg_numeral_quot)

text \<open>The rules that evaluate the arithmetic on numerals.\<close>

lemmas fl_eval =
  fl_def ilog2_def pow2_def round_half_even_def Let_def bitlen_0 bitlen_pos
  float_of_int_def fmul_int_def py_sum_def
  floor_numeral_quot floor_neg_numeral_quot ceiling_numeral_quot

lemma bitlen_power2: "bitlen (2 ^ k) = Suc k"
  by (induction k) (simp_all add: bitlen_pos bitlen_0)

lemma ilog2_power2: "ilog2 (2 ^ k) = int k"
proof -
  have "\<lfloor>(2::rat) ^ k\<rfloor> = 2 ^ k"
    by (metis floor_of_int of_int_numeral of_int_power)
  moreover have "nat ((2::int) ^ k) = 2 ^ k"
    by (simp add: nat_power_eq)
  ultimately have "bitlen (nat \<lfloor>(2::rat) ^ k\<rfloor>) = Suc k"
    by (simp only: bitlen_power2)
  then show ?thesis
    by (simp add: ilog2_def)
qed

lemma round_half_even_of_int: "round_half_even (of_int z) = z"
  by (simp add: round_half_even_def)

text \<open>A power of two from \<open>2^1024\<close> on has no float.\<close>

lemma fl_power2_overflow:
  assumes "1024 \<le> k"
  shows "fl (2 ^ k) = PInf"
proof -
  have k: "int k - 52 \<ge> 0" "nat (int k - 52) = k - 52" using assms by auto
  have u: "pow2 (int k - 52) = 2 ^ (k - 52)"
    using k by (simp add: pow2_def)
  have q: "(2::rat) ^ k / 2 ^ (k - 52) = of_int (2 ^ 52)"
    using assms by (simp add: power_diff [symmetric])
  have y: "rat_of_int (2 ^ 52) * 2 ^ (k - 52) = 2 ^ k"
  proof -
    have "(2::rat) ^ 52 * 2 ^ (k - 52) = 2 ^ (52 + (k - 52))" by (simp only: power_add)
    also have "52 + (k - 52) = k" using assms by simp
    finally show ?thesis by simp
  qed
  have big: "\<not> \<bar>(2::rat) ^ k\<bar> < pow2 1024"
  proof -
    have "(2::rat) ^ 1024 \<le> 2 ^ k" using assms by (intro power_increasing) simp_all
    then show ?thesis by (simp add: pow2_def)
  qed
  have e: "max (ilog2 \<bar>(2::rat) ^ k\<bar>) (- 1022) = int k"
    by (simp add: ilog2_power2)
  show ?thesis
    unfolding fl_def Let_def e u q round_half_even_of_int y
    using big by simp
qed

lemma float_of_int_overflow: "float_of_int (2 ^ 1024) = Inl OverflowError"
proof -
  have "fl (of_int (2 ^ 1024)) = fl (2 ^ 1024)" by (simp only: of_int_power of_int_numeral)
  also have "\<dots> = PInf" by (rule fl_power2_overflow) simp
  finally show ?thesis by (simp only: float_of_int_def pyfloat.case)
qed

text \<open>The arithmetic of the example: two mugs at 10.00 and a spoon at 5.00.\<close>

lemma example_line_totals: "line_totals example_items = Inr [Fin 20, Fin 5]"
  by (simp add: example_items_def fl_eval)

lemma example_subtotal: "py_round2 (py_sum [Fin 20, Fin 5]) = Fin 25"
  by (simp add: fl_eval)

lemma example_tax: "py_round2 (fmul (Fin 25) (fl (8 / 100))) = Fin 2"
  by (simp add: fl_eval)

lemma example_total: "py_round2 (fadd (Fin 25) (Fin 2)) = Fin 27"
  by (simp add: fl_eval)

section \<open>Facts about checkout\<close>

lemma checkout_cases:
  assumes "find_one (\<lambda>d. Cart.session_id (snd d) = CheckoutPayload.session_id payload) (db_cart db) = Some cart"
    and "Cart.items (snd cart) \<noteq> []"
  shows "checkout raises now db payload =
     (if raises Find_one \<or> raises Create_document then (Inl storage_failure, db)
      else if raises Delete_one then (Inl storage_failure, with_order db (order_of now payload (snd cart)))
      else (Inr \<lparr>CheckoutDone.status = ''ok'', order_id = next_oid db,
                 total = Order.total (order_of now payload (snd cart))\<rparr>,
            (with_order db (order_of now payload (snd cart)))
              \<lparr>db_cart := delete_one (\<lambda>d. Cart.session_id (snd d) = CheckoutPayload.session_id payload)
                            (db_cart db)\<rparr>))"
  using assms
  by (simp add: checkout_def order_of_def with_order_def storage_failure_def create_document_order_def Let_def)

lemma checkout_no_cart:
  assumes "find_one (\<lambda>d. Cart.session_id (snd d) = CheckoutPayload.session_id payload) (db_cart db) = None
         \<or> (\<exists>cart. find_one (\<lambda>d. Cart.session_id (snd d) = CheckoutPayload.session_id payload) (db_cart db)
                      = Some cart \<and> Cart.items (snd cart) = [])"
  shows "checkout raises now db payload =
     (if raises Find_one then (Inl storage_failure, db)
      else (Inl (HTTPException 400 (Text ''Cart is empty'')), db))"
  using assms by (auto simp: checkout_def storage_failure_def)

lemma checkout_Inr_D:
  assumes "checkout raises now db payload = (Inr resp, db')"
  shows "\<not> raises Find_one \<and> \<not> raises Create_document \<and> \<not> raises Delete_one
         \<and> (\<exists>cart. find_one (\<lambda>d. Cart.session_id (snd d) = CheckoutPayload.session_id payload) (db_cart db)
                      = Some cart \<and> Cart.items (snd cart) \<noteq> [])"
proof (cases "find_one (\<lambda>d. Cart.session_id (snd d) = CheckoutPayload.session_id payload) (db_cart db)")
  case None
  then show ?thesis
    using assms checkout_no_cart [of payload db raises now] by (simp split: if_splits)
next
  case (Some cart)
  show ?thesis
  proof (cases "Cart.items (snd cart) = []")
    case True
    with Some show ?thesis
      using assms checkout_no_cart [of payload db raises now] by (simp split: if_splits)
  next
    case False
    with Some show ?thesis
      using assms checkout_cases [OF Some False, of raises now] by (simp split: if_splits)
  qed
qed

lemma order_item_copy: "list_all2 copy_of (map order_item cs) cs"
  by (induction cs) (simp_all add: copy_of_def order_item_def)

lemma checkout_ignores_products:
  "checkout raises now (db\<lparr>db_product := ps\<rparr>) payload
     = (fst (checkout raises now db payload), (snd (checkout raises now db payload))\<lparr>db_product := ps\<rparr>)"
  by (simp add: checkout_def create_document_order_def Let_def split: option.splits)

lemma example_cart_found:
  "find_one (\<lambda>d. Cart.session_id (snd d) = CheckoutPayload.session_id example_payload) (db_cart cart_store)
     = Some (0, stored_example_cart)"
  by (simp add: find_one_def cart_store_def stored_example_cart_def example_payload_def)

lemma example_cart_nonempty: "Cart.items (snd (0::oid, stored_example_cart)) \<noteq> []"
  by (simp add: stored_example_cart_def example_items_def)

lemma example_order_of: "order_of 2 example_payload stored_example_cart = example_order"
  by (simp add: order_of_def example_order_def example_payload_def stored_example_cart_def
        example_items_def order_item_def fl_eval)

section \<open>Checkout on an empty cart\<close>

text \<open>
  Claim C2. When the session has no stored cart, or its stored cart has no items, and the
  lookup itself does not raise, \<open>checkout\<close> ends in the exception
  \<open>HTTPException(status_code=400, detail="Cart is empty")\<close>, a client error, and the
  store it leaves is the store it found: no order document has been created and the cart
  collection is unchanged.
\<close>

theorem checkout_empty_cart_no_writes:
  assumes "\<not> raises Find_one"
    and "find_one (\<lambda>d. Cart.session_id (snd d) = CheckoutPayload.session_id payload) (db_cart db) = None
         \<or> (\<exists>cart. find_one (\<lambda>d. Cart.session_id (snd d) = CheckoutPayload.session_id payload) (db_cart db)
                      = Some cart \<and> Cart.items (snd cart) = [])"
  shows "checkout raises now db payload = (Inl (HTTPException 400 (Text ''Cart is empty'')), db)
         \<and> client_error (HTTPException 400 (Text ''Cart is empty''))
         \<and> \<not> server_fault (HTTPException 400 (Text ''Cart is empty''))
         \<and> db_order (snd (checkout raises now db payload)) = db_order db
         \<and> db_cart (snd (checkout raises now db payload)) = db_cart db"
proof -
  have "checkout raises now db payload = (Inl (HTTPException 400 (Text ''Cart is empty'')), db)"
    using assms by (auto simp: checkout_def)
  then show ?thesis
    by (simp add: client_error_def server_fault_def)
qed

theorem checkout_empty_cart_no_writes_witness:
  "checkout no_fault 7 empty_store \<lparr>CheckoutPayload.session_id = ''s1'',
       customer = \<lparr>name = ''Ann'', email = ''ann@example.org'', phone = None,
         address_line1 = ''1 Main St'', address_line2 = None, city = ''Springfield'',
         state = ''IL'', postal_code = ''62701'', country = ''US''\<rparr>\<rparr>
     = (Inl (HTTPException 400 (Text ''Cart is empty'')), empty_store)
   \<and> checkout no_fault 7
       (empty_store\<lparr>db_cart := [(0, \<lparr>Cart.session_id = ''s1'', items = [], subtotal = Fin 0,
                                     updated_at = Some 3\<rparr>)], next_oid := 1\<rparr>)
       \<lparr>CheckoutPayload.session_id = ''s1'',
        customer = \<lparr>name = ''Ann'', email = ''ann@example.org'', phone = None,
          address_line1 = ''1 Main St'', address_line2 = None, city = ''Springfield'',
          state = ''IL'', postal_code = ''62701'', country = ''US''\<rparr>\<rparr>
     = (Inl (HTTPException 400 (Text ''Cart is empty'')),
        empty_store\<lparr>db_cart := [(0, \<lparr>Cart.session_id = ''s1'', items = [], subtotal = Fin 0,
                                     updated_at = Some 3\<rparr>)], next_oid := 1\<rparr>)"
proof -
  let ?p = "\<lparr>CheckoutPayload.session_id = ''s1'',
       customer = \<lparr>name = ''Ann'', email = ''ann@example.org'', phone = None,
         address_line1 = ''1 Main St'', address_line2 = None, city = ''Springfield'',
         state = ''IL'', postal_code = ''62701'', country = ''US''\<rparr>\<rparr>"
  let ?db = "empty_store\<lparr>db_cart := [(0, \<lparr>Cart.session_id = ''s1'', items = [], subtotal = Fin 0,
                                     updated_at = Some 3\<rparr>)], next_oid := 1\<rparr>"
  have nf: "\<not> no_fault Find_one" by (simp add: no_fault_def)
  show ?thesis
    using checkout_empty_cart_no_writes [where raises = no_fault and now = 7 and db = empty_store
            and payload = ?p]
          checkout_empty_cart_no_writes [where raises = no_fault and now = 7 and db = ?db
            and payload = ?p]
          nf
    by (simp add: find_one_def empty_store_def)
qed

section \<open>Facts about the search\<close>







text \<open>The slip in the search: a product whose title does not match and whose description is
  \<open>None\<close> ends the whole listing in an error response.\<close>

lemma list_products_description_None:
  assumes "v \<noteq> []" "\<not> str_contains (lower (Product.title p)) (lower v)"
    and "Product.description p = None"
  shows "list_products (db\<lparr>db_product := [(i, p)]\<rparr>) None (Some v)
           = Inl (HTTPException 500 (Str AttributeError))"
  using assms
  by (simp add: list_products_def get_documents_def truthy_def search_match_def)

section \<open>Listing products\<close>







section \<open>Fetching one product\<close>

text \<open>The slip in \<open>get_product\<close>: the 404 it raises for a well-formed identifier that no product
  has is caught by its own \<open>except Exception\<close> and leaves as a 500.\<close>

lemma get_product_not_found_wrapped:
  assumes "ObjectId pid = Some i" "\<forall>d \<in> set (db_product db). fst d \<noteq> i"
  shows "get_product ObjectId db pid
           = Inl (HTTPException 500 (Str (HTTPException 404 (Text ''Product not found''))))"
proof -
  have "find_one (\<lambda>d. fst d = i) (db_product db) = None"
    using assms(2) by (simp add: find_one_None_iff)
  with assms(1) show ?thesis
    by (simp add: get_product_def)
qed

lemma get_product_found:
  assumes "ObjectId pid = Some i" "find_one (\<lambda>d. fst d = i) (db_product db) = Some doc"
  shows "get_product ObjectId db pid = Inr doc"
  using assms by (simp add: get_product_def)

text \<open>
  Claim C3, as amended. When the given id is not a well-formed storage identifier,
  \<open>get_product\<close> fails with an \<open>HTTPException\<close> of status 500 whose detail is the text of
  the \<open>InvalidId\<close> exception: a server fault, not a client error.
\<close>

theorem get_product_invalid_id:
  assumes "ObjectId pid = None"
  shows "get_product ObjectId db pid = Inl (HTTPException 500 (Str InvalidId))
         \<and> server_fault (HTTPException 500 (Str InvalidId))
         \<and> \<not> client_error (HTTPException 500 (Str InvalidId))"
  using assms by (simp add: get_product_def server_fault_def client_error_def)

lemma ObjectId_hex_short: "ObjectId_hex ''12345'' = None"
  by (simp add: ObjectId_hex_def)

theorem get_product_invalid_id_witness:
  "ObjectId_hex ''12345'' = None
   \<and> get_product ObjectId_hex catalog_store ''12345'' = Inl (HTTPException 500 (Str InvalidId))
   \<and> server_fault (HTTPException 500 (Str InvalidId))"
  using get_product_invalid_id [where ObjectId = ObjectId_hex and pid = "''12345''"
          and db = catalog_store] ObjectId_hex_short
  by blast

text \<open>The claim as it was stated fails at the identifier \<open>not-an-id\<close>: the response is not a
  client error.\<close>

theorem get_product_invalid_id_counterexample:
  "ObjectId_hex ''not-an-id'' = None
   \<and> get_product ObjectId_hex catalog_store ''not-an-id'' = Inl (HTTPException 500 (Str InvalidId))
   \<and> \<not> client_error (HTTPException 500 (Str InvalidId))"
  by (simp add: get_product_def ObjectId_hex_def client_error_def)

lemma example_upsert:
  "create_or_update_cart 1 empty_store example_cart
     = (Inr \<lparr>CartWritten.status = ''ok'', subtotal = Fin 25\<rparr>, cart_store)"
  by (simp add: create_or_update_cart_def example_cart_def example_line_totals example_subtotal
        empty_store_def find_one_def create_document_cart_def cart_store_def
        stored_example_cart_def Let_def)

lemma example_checkout:
  "checkout no_fault 2 cart_store example_payload
     = (Inr \<lparr>CheckoutDone.status = ''ok'', order_id = 1, total = Fin 27\<rparr>, checked_out_store)"
  using checkout_cases [OF example_cart_found example_cart_nonempty, of no_fault 2]
  by (simp add: no_fault_def example_order_of with_order_def)
     (simp add: cart_store_def checked_out_store_def example_order_def stored_example_cart_def
        example_payload_def)

lemma example_checkout_abort:
  "checkout (\<lambda>c. c = Delete_one) 2 cart_store example_payload
     = (Inl storage_failure, cart_store\<lparr>db_order := [(1, example_order)], next_oid := 2\<rparr>)"
  using checkout_cases [OF example_cart_found example_cart_nonempty, of "\<lambda>c. c = Delete_one" 2]
  by (simp add: example_order_of with_order_def) (simp add: cart_store_def)

section \<open>Checkout of a cart with items\<close>

text \<open>
  Claim C1. Let the session's stored cart exist and have at least one item, in a store
  with one cart per session and a backend that does not raise. Then \<open>checkout\<close> succeeds,
  the order collection grows by exactly the new order, under the identifier returned,
  the order's subtotal is the cart's stored subtotal, its tax is
  \<open>round(subtotal * 0.08, 2)\<close>, its total is \<open>round(subtotal + tax, 2)\<close>, and \<open>get_cart\<close> on the
  store left behind returns the dictionary \<open>{session_id, items: [], subtotal: 0.0}\<close>.
  The instance below takes the cart of two items at 10.00 and one at 5.00: its stored
  subtotal is 25.00, the order's tax 2.00 and its total 27.00.
\<close>

theorem checkout_totals_and_cleared_cart:
  assumes "one_cart_per_session db"
    and "\<not> raises Find_one \<and> \<not> raises Create_document \<and> \<not> raises Delete_one"
    and "find_one (\<lambda>d. Cart.session_id (snd d) = CheckoutPayload.session_id payload) (db_cart db) = Some cart"
    and "Cart.items (snd cart) \<noteq> []"
  shows "\<exists>resp db' order.
           checkout raises now db payload = (Inr resp, db')
           \<and> db_order db' = db_order db @ [(CheckoutDone.order_id resp, order)]
           \<and> Order.subtotal order = Cart.subtotal (snd cart)
           \<and> Order.tax order = py_round2 (fmul (Order.subtotal order) (fl (8 / 100)))
           \<and> Order.total order = py_round2 (fadd (Order.subtotal order) (Order.tax order))
           \<and> get_cart db' (CheckoutPayload.session_id payload)
               = Inr (EmptyCart (CheckoutPayload.session_id payload) [] (Fin 0))"
proof -
  let ?sid = "CheckoutPayload.session_id payload"
  let ?order = "order_of now payload (snd cart)"
  let ?db' = "(with_order db ?order)\<lparr>db_cart := delete_one (\<lambda>d. Cart.session_id (snd d) = ?sid) (db_cart db)\<rparr>"
  let ?resp = "\<lparr>CheckoutDone.status = ''ok'', order_id = next_oid db, total = Order.total ?order\<rparr>"
  have res: "checkout raises now db payload = (Inr ?resp, ?db')"
    using checkout_cases [OF assms(3) assms(4), of raises now] assms(2) by simp
  have gone: "find_one (\<lambda>d. Cart.session_id (snd d) = ?sid)
               (delete_one (\<lambda>d. Cart.session_id (snd d) = ?sid) (db_cart db)) = None"
    using assms(1) find_one_delete_one_None [of "\<lambda>d. Cart.session_id (snd d)" "db_cart db" ?sid]
    by (simp add: one_cart_per_session_def)
  have g: "get_cart ?db' ?sid = Inr (EmptyCart ?sid [] (Fin 0))"
    using gone by (simp add: get_cart_def)
  have o: "db_order ?db' = db_order db @ [(CheckoutDone.order_id ?resp, ?order)]"
    by (simp add: with_order_def)
  have t: "Order.subtotal ?order = Cart.subtotal (snd cart)"
    "Order.tax ?order = py_round2 (fmul (Order.subtotal ?order) (fl (8 / 100)))"
    "Order.total ?order = py_round2 (fadd (Order.subtotal ?order) (Order.tax ?order))"
    by (simp_all add: order_of_def)
  from res o t g show ?thesis by blast
qed

theorem checkout_totals_and_cleared_cart_witness:
  "create_or_update_cart 1 empty_store example_cart
     = (Inr \<lparr>CartWritten.status = ''ok'', subtotal = Fin 25\<rparr>, cart_store)
   \<and> one_cart_per_session cart_store
   \<and> checkout no_fault 2 cart_store example_payload
       = (Inr \<lparr>CheckoutDone.status = ''ok'', order_id = 1, total = Fin 27\<rparr>, checked_out_store)
   \<and> db_order checked_out_store = [(1, example_order)]
   \<and> Order.subtotal example_order = Fin 25
   \<and> Order.tax example_order = Fin 2
   \<and> Order.total example_order = Fin 27
   \<and> get_cart checked_out_store ''s1'' = Inr (EmptyCart ''s1'' [] (Fin 0))"
proof -
  have one: "one_cart_per_session cart_store"
    by (simp add: one_cart_per_session_def cart_store_def)
  have nf: "\<not> no_fault Find_one \<and> \<not> no_fault Create_document \<and> \<not> no_fault Delete_one"
    by (simp add: no_fault_def)
  from checkout_totals_and_cleared_cart [OF one nf example_cart_found example_cart_nonempty, of 2]
  obtain resp db' order where
    r: "checkout no_fault 2 cart_store example_payload = (Inr resp, db')"
    and g: "get_cart db' (CheckoutPayload.session_id example_payload)
               = Inr (EmptyCart (CheckoutPayload.session_id example_payload) [] (Fin 0))"
    by blast
  from r example_checkout have "db' = checked_out_store" by simp
  with g have "get_cart checked_out_store ''s1'' = Inr (EmptyCart ''s1'' [] (Fin 0))"
    by (simp add: example_payload_def)
  with one example_upsert example_checkout show ?thesis
    by (simp add: checked_out_store_def example_order_def)
qed

section \<open>The order of the two writes of checkout\<close>

text \<open>
  Claim C5. Whatever storage call raises, the cart collection differs from the one
  \<open>checkout\<close> found only in a store to which the new order has been added: the insert of
  the order has completed before the delete runs. When the lookup or the insert raises,
  the store is left as it was, both collections unchanged. When the delete raises,
  after an insert that went through, the cart collection is intact and the order is in
  the store.
\<close>

theorem checkout_order_before_delete:
  "(raises Find_one \<or> raises Create_document \<longrightarrow> snd (checkout raises now db payload) = db)
   \<and> (raises Delete_one \<longrightarrow> db_cart (snd (checkout raises now db payload)) = db_cart db)
   \<and> (\<forall>cart. \<not> raises Find_one \<and> \<not> raises Create_document \<and> raises Delete_one
         \<and> find_one (\<lambda>d. Cart.session_id (snd d) = CheckoutPayload.session_id payload) (db_cart db) = Some cart
         \<and> Cart.items (snd cart) \<noteq> []
         \<longrightarrow> checkout raises now db payload
               = (Inl storage_failure, with_order db (order_of now payload (snd cart))))
   \<and> (db_cart (snd (checkout raises now db payload)) \<noteq> db_cart db
        \<longrightarrow> (\<exists>order. db_order (snd (checkout raises now db payload)) = db_order db @ [(next_oid db, order)]))"
proof (cases "find_one (\<lambda>d. Cart.session_id (snd d) = CheckoutPayload.session_id payload) (db_cart db)")
  case None
  then show ?thesis
    using checkout_no_cart [of payload db raises now] by simp
next
  case (Some cart)
  show ?thesis
  proof (cases "Cart.items (snd cart) = []")
    case True
    with Some show ?thesis
      using checkout_no_cart [of payload db raises now] by auto
  next
    case False
    with Some show ?thesis
      using checkout_cases [OF Some False, of raises now] by (auto simp: with_order_def)
  qed
qed

theorem checkout_order_before_delete_witness:
  "snd (checkout (\<lambda>c. c = Create_document) 2 cart_store example_payload) = cart_store
   \<and> db_cart (snd (checkout (\<lambda>c. c = Delete_one) 2 cart_store example_payload)) = db_cart cart_store
   \<and> checkout (\<lambda>c. c = Delete_one) 2 cart_store example_payload
       = (Inl storage_failure, with_order cart_store (order_of 2 example_payload stored_example_cart))
   \<and> db_order (snd (checkout (\<lambda>c. c = Delete_one) 2 cart_store example_payload)) = [(1, example_order)]
   \<and> db_cart (snd (checkout no_fault 2 cart_store example_payload)) = []
   \<and> db_order (snd (checkout no_fault 2 cart_store example_payload)) = [(1, example_order)]"
proof -
  have a: "snd (checkout (\<lambda>c. c = Create_document) 2 cart_store example_payload) = cart_store"
    using checkout_order_before_delete [of "\<lambda>c. c = Create_document" 2 cart_store example_payload]
    by simp
  have b: "db_cart (snd (checkout (\<lambda>c. c = Delete_one) 2 cart_store example_payload)) = db_cart cart_store"
    using checkout_order_before_delete [of "\<lambda>c. c = Delete_one" 2 cart_store example_payload]
    by simp
  have c: "checkout (\<lambda>c. c = Delete_one) 2 cart_store example_payload
       = (Inl storage_failure, with_order cart_store (order_of 2 example_payload stored_example_cart))"
    using checkout_order_before_delete [of "\<lambda>c. c = Delete_one" 2 cart_store example_payload]
      example_cart_found example_cart_nonempty
    by simp
  have d: "db_order (with_order cart_store (order_of 2 example_payload stored_example_cart))
       = [(1, example_order)]"
    by (simp add: with_order_def example_order_of cart_store_def)
  show ?thesis
    using a b c d example_checkout
    by (simp add: checked_out_store_def)
qed

section \<open>The items and the response of a successful checkout\<close>

text \<open>
  Claim C6. When \<open>checkout\<close> succeeds, the session has a stored cart, the order added to the
  order collection has one item for each item of that cart, in the same order, with the
  same \<open>product_id\<close>, \<open>title\<close>, \<open>price\<close>, \<open>quantity\<close> and \<open>image\<close>, and the product collection
  plays no part: with any other product collection in the store the same call gives the
  same response and the same order.
\<close>

theorem checkout_copies_items:
  assumes "checkout raises now db payload = (Inr resp, db')"
  shows "\<exists>cart order.
           find_one (\<lambda>d. Cart.session_id (snd d) = CheckoutPayload.session_id payload) (db_cart db) = Some cart
           \<and> db_order db' = db_order db @ [(CheckoutDone.order_id resp, order)]
           \<and> list_all2 copy_of (Order.items order) (Cart.items (snd cart))
           \<and> (\<forall>ps. checkout raises now (db\<lparr>db_product := ps\<rparr>) payload = (Inr resp, db'\<lparr>db_product := ps\<rparr>))"
proof -
  from checkout_Inr_D [OF assms] obtain cart where
    r: "\<not> raises Find_one" "\<not> raises Create_document" "\<not> raises Delete_one"
    and c: "find_one (\<lambda>d. Cart.session_id (snd d) = CheckoutPayload.session_id payload) (db_cart db) = Some cart"
    and n: "Cart.items (snd cart) \<noteq> []"
    by blast
  have res: "resp = \<lparr>CheckoutDone.status = ''ok'', order_id = next_oid db,
                 total = Order.total (order_of now payload (snd cart))\<rparr>"
    "db' = (with_order db (order_of now payload (snd cart)))
              \<lparr>db_cart := delete_one (\<lambda>d. Cart.session_id (snd d) = CheckoutPayload.session_id payload)
                            (db_cart db)\<rparr>"
    using assms checkout_cases [OF c n, of raises now] r by simp_all
  have o: "db_order db' = db_order db @ [(CheckoutDone.order_id resp, order_of now payload (snd cart))]"
    by (simp add: res with_order_def)
  have i: "list_all2 copy_of (Order.items (order_of now payload (snd cart))) (Cart.items (snd cart))"
    by (simp add: order_of_def order_item_copy)
  have p: "\<forall>ps. checkout raises now (db\<lparr>db_product := ps\<rparr>) payload = (Inr resp, db'\<lparr>db_product := ps\<rparr>)"
    by (simp add: checkout_ignores_products assms)
  from c o i p show ?thesis by blast
qed

theorem checkout_copies_items_witness:
  "checkout no_fault 2 cart_store example_payload
     = (Inr \<lparr>CheckoutDone.status = ''ok'', order_id = 1, total = Fin 27\<rparr>, checked_out_store)
   \<and> (\<exists>cart order.
         find_one (\<lambda>d. Cart.session_id (snd d) = CheckoutPayload.session_id example_payload)
           (db_cart cart_store) = Some cart
         \<and> db_order checked_out_store = db_order cart_store @ [(1, order)]
         \<and> list_all2 copy_of (Order.items order) (Cart.items (snd cart))
         \<and> (\<forall>ps. checkout no_fault 2 (cart_store\<lparr>db_product := ps\<rparr>) example_payload
                = (Inr \<lparr>CheckoutDone.status = ''ok'', order_id = 1, total = Fin 27\<rparr>,
                   checked_out_store\<lparr>db_product := ps\<rparr>)))
   \<and> list_all2 copy_of (Order.items example_order) example_items"
proof -
  have "list_all2 copy_of (Order.items example_order) example_items"
    by (simp add: example_order_def example_items_def copy_of_def)
  then show ?thesis
    using checkout_copies_items [OF example_checkout] example_checkout by simp
qed

text \<open>
  Claim C10. When \<open>checkout\<close> succeeds, the order collection has grown by exactly one
  document, stored under the \<open>order_id\<close> of the response, and the \<open>total\<close> of that document is
  the \<open>total\<close> of the response. In a store whose identifiers in use are below the next one,
  no order had that identifier before, and a lookup by it finds the new order.
\<close>

theorem checkout_response_matches_order:
  assumes "checkout raises now db payload = (Inr resp, db')"
    and "ids_below_next db"
  shows "\<exists>order.
           db_order db' = db_order db @ [(CheckoutDone.order_id resp, order)]
           \<and> Order.total order = CheckoutDone.total resp
           \<and> find_one (\<lambda>d. fst d = CheckoutDone.order_id resp) (db_order db')
               = Some (CheckoutDone.order_id resp, order)
           \<and> find_one (\<lambda>d. fst d = CheckoutDone.order_id resp) (db_order db) = None"
proof -
  from checkout_Inr_D [OF assms(1)] obtain cart where
    r: "\<not> raises Find_one" "\<not> raises Create_document" "\<not> raises Delete_one"
    and c: "find_one (\<lambda>d. Cart.session_id (snd d) = CheckoutPayload.session_id payload) (db_cart db) = Some cart"
    and n: "Cart.items (snd cart) \<noteq> []"
    by blast
  have res: "resp = \<lparr>CheckoutDone.status = ''ok'', order_id = next_oid db,
                 total = Order.total (order_of now payload (snd cart))\<rparr>"
    "db' = (with_order db (order_of now payload (snd cart)))
              \<lparr>db_cart := delete_one (\<lambda>d. Cart.session_id (snd d) = CheckoutPayload.session_id payload)
                            (db_cart db)\<rparr>"
    using assms(1) checkout_cases [OF c n, of raises now] r by simp_all
  have old: "find_one (\<lambda>d. fst d = next_oid db) (db_order db) = None"
    using assms(2) by (auto simp: find_one_None_iff ids_below_next_def list_all_iff)
  then have new: "find_one (\<lambda>d. fst d = next_oid db) (db_order db @ [(next_oid db, order_of now payload (snd cart))])
      = Some (next_oid db, order_of now payload (snd cart))"
    by (simp add: find_one_append) (simp add: find_one_def)
  show ?thesis
    using old new by (simp add: res with_order_def)
qed

theorem checkout_response_matches_order_witness:
  "ids_below_next cart_store
   \<and> checkout no_fault 2 cart_store example_payload
       = (Inr \<lparr>CheckoutDone.status = ''ok'', order_id = 1, total = Fin 27\<rparr>, checked_out_store)
   \<and> (\<exists>order.
         db_order checked_out_store = db_order cart_store @ [(1, order)]
         \<and> Order.total order = Fin 27
         \<and> find_one (\<lambda>d. fst d = 1) (db_order checked_out_store) = Some (1, order)
         \<and> find_one (\<lambda>d. fst d = 1) (db_order cart_store) = None)"
proof -
  have i: "ids_below_next cart_store"
    by (simp add: ids_below_next_def cart_store_def)
  show ?thesis
    using checkout_response_matches_order [OF example_checkout i] example_checkout i by simp
qed

lemma fits_float_D: "fits_float q \<Longrightarrow> float_of_int q = Inr (fl (of_int q))"
  by (auto simp: fits_float_def float_of_int_def split: pyfloat.splits)

lemma not_fits_float_D: "\<not> fits_float q \<Longrightarrow> float_of_int q = Inl OverflowError"
  by (auto simp: fits_float_def float_of_int_def split: pyfloat.splits)

lemma line_totals_fits:
  assumes "\<forall>i \<in> set its. fits_float (CartItem.quantity i)"
  shows "line_totals its = Inr (map line_total its)"
  using assms
  by (induction its) (simp_all add: fmul_int_def fits_float_D line_total_def)

lemma line_totals_overflow:
  assumes "\<not> (\<forall>i \<in> set its. fits_float (CartItem.quantity i))"
  shows "line_totals its = Inl OverflowError"
  using assms
proof (induction its)
  case Nil
  then show ?case by simp
next
  case (Cons i its)
  show ?case
  proof (cases "fits_float (CartItem.quantity i)")
    case True
    with Cons show ?thesis by (simp add: fmul_int_def fits_float_D)
  next
    case False
    then show ?thesis by (simp add: fmul_int_def not_fits_float_D)
  qed
qed

lemma create_or_update_cart_fits:
  assumes "\<forall>i \<in> set (Cart.items cart). fits_float (CartItem.quantity i)"
  shows "create_or_update_cart now db cart =
     (Inr \<lparr>CartWritten.status = ''ok'', subtotal = expected_subtotal (Cart.items cart)\<rparr>,
      case find_one (\<lambda>d. Cart.session_id (snd d) = Cart.session_id cart) (db_cart db) of
        Some existing \<Rightarrow> db\<lparr>db_cart := update_one (fst existing) (stored_cart now cart) (db_cart db)\<rparr>
      | None \<Rightarrow> db\<lparr>db_cart := db_cart db @ [(next_oid db, stored_cart now cart)],
                     next_oid := Suc (next_oid db)\<rparr>)"
  by (simp add: create_or_update_cart_def line_totals_fits [OF assms] Let_def expected_subtotal_def
        stored_cart_def create_document_cart_def split: option.splits)

lemma create_or_update_cart_overflow:
  assumes "\<not> (\<forall>i \<in> set (Cart.items cart). fits_float (CartItem.quantity i))"
  shows "create_or_update_cart now db cart = (Inl (HTTPException 500 (Str OverflowError)), db)"
  by (simp add: create_or_update_cart_def line_totals_overflow [OF assms])

lemma find_one_update_one:
  assumes "find_one flt coll = Some (i, old)" "flt (i, data)"
  shows "find_one flt (update_one i data coll) = Some (i, data)"
  using assms
  by (induction coll) (auto simp: find_one_def split: if_splits)

lemma update_one_twice: "update_one i b (update_one i a coll) = update_one i b coll"
  by (induction coll) simp_all

lemma update_one_absent:
  assumes "\<forall>d \<in> set coll. fst d \<noteq> i"
  shows "update_one i x coll = coll"
  using assms by (induction coll) simp_all

lemma update_one_distinct:
  assumes "distinct (map fst coll)"
  shows "update_one i x coll = map (\<lambda>d. if fst d = i then (i, x) else d) coll"
  using assms
proof (induction coll)
  case Nil
  then show ?case by simp
next
  case (Cons e es)
  show ?case
  proof (cases "fst e = i")
    case True
    with Cons.prems have "\<forall>d \<in> set es. fst d \<noteq> i" by (fastforce simp: image_iff)
    then have "map (\<lambda>d. if fst d = i then (i, x) else d) es = es"
      by (induction es) simp_all
    with True show ?thesis by simp
  next
    case False
    with Cons show ?thesis by simp
  qed
qed

lemma update_one_append_new:
  assumes "\<forall>d \<in> set coll. fst d \<noteq> i"
  shows "update_one i b (coll @ [(i, a)]) = coll @ [(i, b)]"
  using assms by (induction coll) simp_all


section \<open>The subtotal of a written cart\<close>

text \<open>
  Claim C4, as amended. For every payload whose quantities each have a float,
  \<open>create_or_update_cart\<close> succeeds, the subtotal of its response is
  \<open>round(sum of item.price * item.quantity over the submitted items, 2)\<close>, and the cart then
  read back for the session is the payload with that subtotal and the time of the write:
  its items are the submitted items. The subtotal and the \<open>updated_at\<close> that the payload
  carries play no part: with any others the response and the store are the same.
\<close>

theorem upsert_subtotal_invariant:
  assumes "\<forall>i \<in> set (Cart.items cart). fits_float (CartItem.quantity i)"
  shows "\<exists>resp db' i.
           create_or_update_cart now db cart = (Inr resp, db')
           \<and> CartWritten.subtotal resp = expected_subtotal (Cart.items cart)
           \<and> get_cart db' (Cart.session_id cart) = Inr (StoredCart i (stored_cart now cart))
           \<and> Cart.subtotal (stored_cart now cart) = expected_subtotal (Cart.items cart)
           \<and> Cart.items (stored_cart now cart) = Cart.items cart
           \<and> (\<forall>s u. create_or_update_cart now db (cart\<lparr>Cart.subtotal := s, Cart.updated_at := u\<rparr>)
                      = (Inr resp, db'))"
proof -
  let ?flt = "\<lambda>d. Cart.session_id (snd d) = Cart.session_id cart"
  let ?data = "stored_cart now cart"
  let ?resp = "\<lparr>CartWritten.status = ''ok'', subtotal = expected_subtotal (Cart.items cart)\<rparr>"
  let ?db' = "case find_one ?flt (db_cart db) of
        Some existing \<Rightarrow> db\<lparr>db_cart := update_one (fst existing) ?data (db_cart db)\<rparr>
      | None \<Rightarrow> db\<lparr>db_cart := db_cart db @ [(next_oid db, ?data)], next_oid := Suc (next_oid db)\<rparr>"
  have res: "create_or_update_cart now db cart = (Inr ?resp, ?db')"
    by (rule create_or_update_cart_fits [OF assms])
  have same: "\<forall>s u. create_or_update_cart now db (cart\<lparr>Cart.subtotal := s, Cart.updated_at := u\<rparr>)
                      = (Inr ?resp, ?db')"
  proof (intro allI)
    fix s u
    have "\<forall>i \<in> set (Cart.items (cart\<lparr>Cart.subtotal := s, Cart.updated_at := u\<rparr>)).
            fits_float (CartItem.quantity i)"
      using assms by simp
    moreover have "stored_cart now (cart\<lparr>Cart.subtotal := s, Cart.updated_at := u\<rparr>) = stored_cart now cart"
      by (simp add: stored_cart_def)
    ultimately show "create_or_update_cart now db (cart\<lparr>Cart.subtotal := s, Cart.updated_at := u\<rparr>)
        = (Inr ?resp, ?db')"
      using create_or_update_cart_fits [of "cart\<lparr>Cart.subtotal := s, Cart.updated_at := u\<rparr>" now db]
      by (simp split: option.splits)
  qed
  have sess: "?flt (j, ?data)" for j
    by (simp add: stored_cart_def)
  have "\<exists>i. find_one ?flt (db_cart ?db') = Some (i, ?data)"
  proof (cases "find_one ?flt (db_cart db)")
    case None
    then show ?thesis
      using sess by (simp add: find_one_append) (simp add: find_one_def)
  next
    case (Some existing)
    then have "find_one ?flt (db_cart db) = Some (fst existing, snd existing)" by simp
    from find_one_update_one [OF this sess]
    show ?thesis using Some by auto
  qed
  then obtain i where "get_cart ?db' (Cart.session_id cart) = Inr (StoredCart i ?data)"
    by (auto simp: get_cart_def)
  with res same show ?thesis
    by (auto simp: stored_cart_def)
qed


section \<open>A write over a stored cart\<close>

text \<open>
  Claim C7, as amended. Let the session have a stored cart, under the identifier \<open>i\<close>, in a
  collection whose identifiers are distinct, and let the quantities of the payload each
  have a float. Then the write succeeds and changes the document under \<open>i\<close> alone, which
  becomes the payload with the new subtotal and the time of the write: the collection
  keeps its length, its identifiers and its order, no other collection changes, and
  \<open>get_cart\<close> returns that document, whose items are exactly the submitted items.
\<close>

theorem upsert_replaces_in_place:
  assumes "\<forall>i \<in> set (Cart.items cart). fits_float (CartItem.quantity i)"
    and "distinct (map fst (db_cart db))"
    and "find_one (\<lambda>d. Cart.session_id (snd d) = Cart.session_id cart) (db_cart db) = Some (i, old)"
  shows "\<exists>resp db'.
           create_or_update_cart now db cart = (Inr resp, db')
           \<and> db_cart db' = map (\<lambda>d. if fst d = i then (i, stored_cart now cart) else d) (db_cart db)
           \<and> map fst (db_cart db') = map fst (db_cart db)
           \<and> db_order db' = db_order db \<and> db_product db' = db_product db \<and> next_oid db' = next_oid db
           \<and> get_cart db' (Cart.session_id cart) = Inr (StoredCart i (stored_cart now cart))
           \<and> Cart.items (stored_cart now cart) = Cart.items cart"
proof -
  let ?flt = "\<lambda>d. Cart.session_id (snd d) = Cart.session_id cart"
  let ?data = "stored_cart now cart"
  let ?db' = "db\<lparr>db_cart := update_one i ?data (db_cart db)\<rparr>"
  have res: "create_or_update_cart now db cart
      = (Inr \<lparr>CartWritten.status = ''ok'', subtotal = expected_subtotal (Cart.items cart)\<rparr>, ?db')"
    using create_or_update_cart_fits [OF assms(1), of now db] assms(3) by simp
  have upd: "update_one i ?data (db_cart db) = map (\<lambda>d. if fst d = i then (i, ?data) else d) (db_cart db)"
    by (rule update_one_distinct [OF assms(2)])
  have ids: "map fst (map (\<lambda>d. if fst d = i then (i, ?data) else d) (db_cart db)) = map fst (db_cart db)"
    by (induction "db_cart db") auto
  have "?flt (i, ?data)" by (simp add: stored_cart_def)
  from find_one_update_one [OF assms(3) this]
  have g: "get_cart ?db' (Cart.session_id cart) = Inr (StoredCart i ?data)"
    by (simp add: get_cart_def)
  have it: "Cart.items ?data = Cart.items cart" by (simp add: stored_cart_def)
  show ?thesis
    using res upd ids g it by simp
qed

section \<open>Writing the same cart twice\<close>

lemma forget_update_one:
  "forget_updated_at (update_one i x coll)
     = update_one i (x\<lparr>Cart.updated_at := None\<rparr>) (forget_updated_at coll)"
  by (induction coll) (simp_all add: forget_updated_at_def)

lemma forget_stored_cart:
  "(stored_cart t2 cart)\<lparr>Cart.updated_at := None\<rparr> = (stored_cart t1 cart)\<lparr>Cart.updated_at := None\<rparr>"
  by (simp add: stored_cart_def)

text \<open>
  Claim C8. In a store whose identifiers in use are below the next one, writing the same
  payload a second time gives the response of the first write and leaves the store that
  a single write at the later time leaves; that store and the store after the first
  write are equal once \<open>updated_at\<close> is left out of the cart documents.
\<close>

theorem upsert_idempotent:
  assumes "ids_below_next db"
  shows "fst (create_or_update_cart t2 (snd (create_or_update_cart t1 db cart)) cart)
           = fst (create_or_update_cart t1 db cart)
         \<and> snd (create_or_update_cart t2 (snd (create_or_update_cart t1 db cart)) cart)
           = snd (create_or_update_cart t2 db cart)
         \<and> (snd (create_or_update_cart t2 db cart))
              \<lparr>db_cart := forget_updated_at (db_cart (snd (create_or_update_cart t2 db cart)))\<rparr>
           = (snd (create_or_update_cart t1 db cart))
              \<lparr>db_cart := forget_updated_at (db_cart (snd (create_or_update_cart t1 db cart)))\<rparr>"
proof (cases "\<forall>i \<in> set (Cart.items cart). fits_float (CartItem.quantity i)")
  case False
  then show ?thesis
    by (simp add: create_or_update_cart_overflow)
next
  case True
  let ?flt = "\<lambda>d. Cart.session_id (snd d) = Cart.session_id cart"
  note fits = create_or_update_cart_fits [OF True]
  have sess: "?flt (j, stored_cart t cart)" for j t
    by (simp add: stored_cart_def)
  have r: "fst (create_or_update_cart t S cart)
      = Inr \<lparr>CartWritten.status = ''ok'', subtotal = expected_subtotal (Cart.items cart)\<rparr>" for t S
    by (simp add: fits)
  show ?thesis
  proof (cases "find_one ?flt (db_cart db)")
    case None
    let ?n = "next_oid db"
    have fresh: "\<forall>d \<in> set (db_cart db). fst d \<noteq> ?n"
      using assms by (auto simp: ids_below_next_def list_all_iff)
    have s1: "snd (create_or_update_cart t db cart)
        = db\<lparr>db_cart := db_cart db @ [(?n, stored_cart t cart)], next_oid := Suc ?n\<rparr>" for t
      using None by (simp add: fits)
    have f1: "find_one ?flt (db_cart db @ [(?n, stored_cart t1 cart)]) = Some (?n, stored_cart t1 cart)"
      using None sess by (simp add: find_one_append) (simp add: find_one_def)
    have s2: "snd (create_or_update_cart t2 (snd (create_or_update_cart t1 db cart)) cart)
        = db\<lparr>db_cart := db_cart db @ [(?n, stored_cart t2 cart)], next_oid := Suc ?n\<rparr>"
    proof -
      have "snd (create_or_update_cart t2 (snd (create_or_update_cart t1 db cart)) cart)
          = snd (create_or_update_cart t2
                  (db\<lparr>db_cart := db_cart db @ [(?n, stored_cart t1 cart)], next_oid := Suc ?n\<rparr>) cart)"
        by (simp only: s1)
      also have "\<dots> = db\<lparr>db_cart := db_cart db @ [(?n, stored_cart t2 cart)], next_oid := Suc ?n\<rparr>"
        by (simp add: fits f1 update_one_append_new [OF fresh])
      finally show ?thesis .
    qed
    have fg: "forget_updated_at (db_cart db @ [(?n, stored_cart t cart)])
        = forget_updated_at (db_cart db) @ [(?n, (stored_cart t1 cart)\<lparr>Cart.updated_at := None\<rparr>)]" for t
      using forget_stored_cart [of t cart t1] by (simp add: forget_updated_at_def)
    show ?thesis
      by (simp only: s2 r) (simp add: s1 fg)
  next
    case (Some existing)
    let ?i = "fst existing"
    have ex: "find_one ?flt (db_cart db) = Some (?i, snd existing)" using Some by simp
    have s1: "snd (create_or_update_cart t db cart)
        = db\<lparr>db_cart := update_one ?i (stored_cart t cart) (db_cart db)\<rparr>" for t
      using Some by (simp add: fits)
    have f1: "find_one ?flt (update_one ?i (stored_cart t1 cart) (db_cart db)) = Some (?i, stored_cart t1 cart)"
      by (rule find_one_update_one [OF ex sess])
    have s2: "snd (create_or_update_cart t2 (snd (create_or_update_cart t1 db cart)) cart)
        = db\<lparr>db_cart := update_one ?i (stored_cart t2 cart) (db_cart db)\<rparr>"
    proof -
      have "snd (create_or_update_cart t2 (snd (create_or_update_cart t1 db cart)) cart)
          = snd (create_or_update_cart t2
                  (db\<lparr>db_cart := update_one ?i (stored_cart t1 cart) (db_cart db)\<rparr>) cart)"
        by (simp only: s1)
      also have "\<dots> = db\<lparr>db_cart := update_one ?i (stored_cart t2 cart) (db_cart db)\<rparr>"
        by (simp add: fits f1 update_one_twice)
      finally show ?thesis .
    qed
    have fg: "forget_updated_at (update_one ?i (stored_cart t cart) (db_cart db))
        = update_one ?i ((stored_cart t1 cart)\<lparr>Cart.updated_at := None\<rparr>) (forget_updated_at (db_cart db))" for t
      using forget_stored_cart [of t cart t1] by (simp add: forget_update_one)
    show ?thesis
      by (simp only: s2 r) (simp add: s1 fg)
  qed
qed

end
